theory Spec2Isabelle
  imports
    Complex_Main
    "HOL-Library.Char_ord"
    "HOL-Library.List_Lexorder"
    "HOL-Library.Product_Lexorder"
    "HOL-Library.Multiset"
begin

section \<open>JSON values as the route handlers see them\<close>

text \<open>
  Both API routes read their input with \<^verbatim>\<open>await request.json()\<close>. The value they get
  is a parsed JSON value: \<^verbatim>\<open>null\<close>, a boolean, a number, a string, an array or an object.
  An object is kept as its list of members in source order; for a repeated key the parser
  keeps the last member.
\<close>

text \<open>
  A parsed number is a double: a finite value (both zeros of a double are the number 0
  here), or an infinity, which the parser gives for a literal out of range such as
  \<^verbatim>\<open>1e309\<close>. The parser never gives NaN.
\<close>

datatype number =
    Finite real
  | PlusInfinity
  | MinusInfinity

datatype json =
    JNull
  | JBool bool
  | JNum number
  | JStr string
  | JArr "json list"
  | JObj "(string \<times> json) list"

text \<open>
  \<^verbatim>\<open>const { message, session_id } = body\<close> and \<^verbatim>\<open>data.response\<close> read properties of
  a parsed value. Reading a property of \<^verbatim>\<open>null\<close> raises a TypeError (the handlers below
  test for \<open>JNull\<close> before they call \<open>get_prop\<close>). An object gives its own member. The
  names the handlers read (\<^verbatim>\<open>message\<close>, \<^verbatim>\<open>session_id\<close>, \<^verbatim>\<open>text\<close>, \<^verbatim>\<open>voice_type\<close>,
  \<^verbatim>\<open>response\<close>, \<^verbatim>\<open>timestamp\<close>, \<^verbatim>\<open>context_used\<close>) are not properties of any
  prototype, so an object without the member, a primitive and an array all give
  \<^verbatim>\<open>undefined\<close>: \<open>None\<close>.
\<close>

fun get_prop :: "json \<Rightarrow> string \<Rightarrow> json option" where
  "get_prop (JObj members) key = map_of (rev members) key"
| "get_prop _ key = None"

text \<open>JavaScript truthiness of a property that may be \<^verbatim>\<open>undefined\<close>.\<close>

fun truthy :: "json option \<Rightarrow> bool" where
  "truthy None = False"
| "truthy (Some JNull) = False"
| "truthy (Some (JBool b)) = b"
| "truthy (Some (JNum n)) = (n \<noteq> Finite 0)"
| "truthy (Some (JStr s)) = (s \<noteq> [])"
| "truthy (Some (JArr xs)) = True"
| "truthy (Some (JObj members)) = True"

text \<open>
  \<^verbatim>\<open>JSON.stringify\<close> followed by the receiver's parse: what a value becomes when a handler
  sends it in a JSON body. An infinity is written as \<^verbatim>\<open>null\<close>, also inside arrays and
  objects; every other parsed value comes back as it was. (The members of an object are
  kept as they are, and are read with \<open>get_prop\<close> on either side.)
\<close>

fun stringified :: "json \<Rightarrow> json" where
  "stringified JNull = JNull"
| "stringified (JBool b) = JBool b"
| "stringified (JNum n) = (case n of Finite x \<Rightarrow> JNum (Finite x) | _ \<Rightarrow> JNull)"
| "stringified (JStr s) = JStr s"
| "stringified (JArr xs) = JArr (map stringified xs)"
| "stringified (JObj members) = JObj (map (map_prod id stringified) members)"

section \<open>The chat route: \<^verbatim>\<open>src/app/api/chat/route.ts\<close>\<close>

text \<open>
  What the handler sends to the Python backend with \<^verbatim>\<open>fetch\<close>: the URL, the method and
  the two members of the JSON body, as the backend reads them.
\<close>

record fetch_request =
  url :: string
  http_method :: string
  fwd_message :: json
  fwd_session_id :: json

text \<open>
  What the backend does is outside the handler: \<^verbatim>\<open>fetch\<close> either rejects (the backend
  is unreachable) or resolves to a response with a status and a body; the body is
  \<open>None\<close> when \<^verbatim>\<open>response.json()\<close> rejects.
\<close>

datatype fetch_outcome =
    FetchRejected
  | FetchResponse nat "json option"

text \<open>The exception the handler's \<^verbatim>\<open>catch\<close> block received.\<close>

datatype failure =
    BodyNotJson
  | DestructureNull
  | FetchFailed
  | BackendStatus nat
  | BackendBodyNotJson
  | ReadPropertyOfNull

datatype chat_body =
    ErrorBody string
  | ErrorDetails string failure
  | ChatReply "(string \<times> json) list"

record chat_response =
  status :: nat
  body :: chat_body

definition internal_server_error :: "failure \<Rightarrow> chat_response" where
  "internal_server_error f =
     \<lparr>status = 500, body = ErrorDetails ''Internal server error'' f\<rparr>"

text \<open>\<^verbatim>\<open>response.ok\<close>: the status is in the range 200-299.\<close>

definition response_ok :: "nat \<Rightarrow> bool" where
  "response_ok st = (200 \<le> st \<and> st \<le> 299)"

text \<open>
  \<^verbatim>\<open>NextResponse.json({response: data.response, ...})\<close>: a member whose value is
  \<^verbatim>\<open>undefined\<close> is left out by the serialisation.
\<close>

definition reply_members :: "json \<Rightarrow> (string \<times> json) list" where
  "reply_members data =
     List.map_filter (\<lambda>k. map_option (\<lambda>v. (k, stringified v)) (get_prop data k))
       [''response'', ''session_id'', ''timestamp'', ''context_used'']"

text \<open>
  The handler. Its result is the HTTP response together with the list of requests it
  forwarded to the backend. The first argument is the parsed request body, \<open>None\<close> when
  \<^verbatim>\<open>request.json()\<close> rejects; the second is the backend.
\<close>

definition chat_POST ::
  "json option \<Rightarrow> (fetch_request \<Rightarrow> fetch_outcome) \<Rightarrow> chat_response \<times> fetch_request list" where
  "chat_POST parsed backend =
     (case parsed of
        None \<Rightarrow> (internal_server_error BodyNotJson, [])
      | Some req_body \<Rightarrow>
          if req_body = JNull then (internal_server_error DestructureNull, [])
          else
            let message = get_prop req_body ''message'';
                session_id = get_prop req_body ''session_id''
            in if \<not> truthy message
               then (\<lparr>status = 400, body = ErrorBody ''Message is required''\<rparr>, [])
               else
                 let fwd = \<lparr>url = ''http://localhost:8000/api/chat'',
                            http_method = ''POST'',
                            fwd_message = stringified (the message),
                            fwd_session_id =
                              stringified
                                (if truthy session_id then the session_id
                                 else JStr ''nextjs-session'')\<rparr>
                 in (case backend fwd of
                       FetchRejected \<Rightarrow> (internal_server_error FetchFailed, [fwd])
                     | FetchResponse st data \<Rightarrow>
                         if \<not> response_ok st
                         then (internal_server_error (BackendStatus st), [fwd])
                         else (case data of
                                 None \<Rightarrow> (internal_server_error BackendBodyNotJson, [fwd])
                               | Some d \<Rightarrow>
                                   if d = JNull
                                   then (internal_server_error ReadPropertyOfNull, [fwd])
                                   else (\<lparr>status = 200, body = ChatReply (reply_members d)\<rparr>,
                                         [fwd]))))"

text \<open>A backend that answers 200 with a fixed reply.\<close>

definition backend_echo :: "fetch_request \<Rightarrow> fetch_outcome" where
  "backend_echo req =
     FetchResponse 200
       (Some (JObj [(''response'', JStr ''Hello''), (''session_id'', fwd_session_id req)]))"

section \<open>The text-to-speech route: \<^verbatim>\<open>src/unnamed/part_001\<close>\<close>

record voice_config =
  voice_id :: string
  voice_name :: string
  description :: string

text \<open>The table \<^verbatim>\<open>VOICE_OPTIONS\<close>, member by member.\<close>

definition VOICE_OPTIONS :: "(string \<times> voice_config) list" where
  "VOICE_OPTIONS =
     [(''primary'',
         \<lparr>voice_id = ''pNInz6obpgDQGcFmaJgB'', voice_name = ''Adam'',
          description = ''Professional, warm, and culturally respectful''\<rparr>),
      (''alternative'',
         \<lparr>voice_id = ''EXAVITQu4vr4xnSDxMaL'', voice_name = ''Bella'',
          description = ''Warm, friendly, and approachable''\<rparr>),
      (''cultural'',
         \<lparr>voice_id = ''pNInz6obpgDQGcFmaJgB'', voice_name = ''Cultural Voice'',
          description = ''Respectful and culturally aware''\<rparr>),
      (''professional'',
         \<lparr>voice_id = ''21m00Tcm4TlvDq8ikWAM'', voice_name = ''Rachel'',
          description = ''Clear, professional, and articulate''\<rparr>),
      (''friendly'',
         \<lparr>voice_id = ''AZnzlk1XvdvUeBnXmlld'', voice_name = ''Domi'',
          description = ''Energetic and engaging''\<rparr>),
      (''calm'',
         \<lparr>voice_id = ''VR6AewLTigWG4xSOukaG'', voice_name = ''Arnold'',
          description = ''Calm, soothing, and trustworthy''\<rparr>),
      (''young'',
         \<lparr>voice_id = ''VR6AewLTigWG4xSOukaG'', voice_name = ''Josh'',
          description = ''Young, enthusiastic, and modern''\<rparr>)]"

definition VOICE_OPTIONS_primary :: voice_config where
  "VOICE_OPTIONS_primary =
     \<lparr>voice_id = ''pNInz6obpgDQGcFmaJgB'', voice_name = ''Adam'',
      description = ''Professional, warm, and culturally respectful''\<rparr>"

text \<open>The names of the seven configured voices.\<close>

definition defined_voice_names :: "string list" where
  "defined_voice_names = map (voice_name \<circ> snd) VOICE_OPTIONS"

text \<open>
  \<^verbatim>\<open>VOICE_OPTIONS[voice_type]\<close> is a JavaScript property read. \<^verbatim>\<open>VOICE_OPTIONS\<close> is an
  object literal, so a key that is not one of its own seven is looked up in its prototype,
  \<^verbatim>\<open>Object.prototype\<close>. The values such a read can give:
\<close>

datatype js_value =
    Undefined
  | VoiceConfig voice_config
  | NativeFunction string
  | ObjectPrototype

text \<open>
  The properties of \<^verbatim>\<open>Object.prototype\<close> (ECMAScript, sections 20.1.3 and B.2.2): the
  function-valued ones, \<^verbatim>\<open>constructor\<close> (the function \<^verbatim>\<open>Object\<close>) and the accessor
  \<^verbatim>\<open>__proto__\<close>, which gives the prototype of the object it is read from.
\<close>

definition object_prototype_methods :: "string list" where
  "object_prototype_methods =
     [''hasOwnProperty'', ''isPrototypeOf'', ''propertyIsEnumerable'', ''toLocaleString'',
      ''toString'', ''valueOf'', ''__defineGetter__'', ''__defineSetter__'',
      ''__lookupGetter__'', ''__lookupSetter__'']"

definition object_prototype_get :: "string \<Rightarrow> js_value" where
  "object_prototype_get key =
     (if key = ''constructor'' then NativeFunction ''Object''
      else if key = ''__proto__'' then ObjectPrototype
      else if key \<in> set object_prototype_methods then NativeFunction key
      else Undefined)"

definition voice_options_get :: "string \<Rightarrow> js_value" where
  "voice_options_get key =
     (case map_of VOICE_OPTIONS key of
        Some c \<Rightarrow> VoiceConfig c
      | None \<Rightarrow> object_prototype_get key)"

text \<open>
  The key of the read is \<^verbatim>\<open>voice_type\<close> converted to a string (ToPropertyKey); the
  conversion can raise a TypeError, which is \<open>None\<close>. How a finite number prints is the
  runtime's \<^verbatim>\<open>Number.prototype.toString\<close>; it is the parameter \<open>num\<close>. An array prints
  its elements separated by commas, \<^verbatim>\<open>null\<close> elements as the empty string. An object
  is converted by its \<^verbatim>\<open>toString\<close>: the inherited one gives \<^verbatim>\<open>[object Object]\<close>; an
  own member of that name is parsed JSON and so not callable, \<^verbatim>\<open>valueOf\<close> (an own
  member, or the inherited one, which returns the object) gives no primitive either,
  and the conversion raises the TypeError.
\<close>

fun join_comma :: "string list \<Rightarrow> string" where
  "join_comma [] = []"
| "join_comma [s] = s"
| "join_comma (s # t # ts) = s @ '','' @ join_comma (t # ts)"

fun number_to_string :: "(real \<Rightarrow> string) \<Rightarrow> number \<Rightarrow> string" where
  "number_to_string num (Finite x) = num x"
| "number_to_string num PlusInfinity = ''Infinity''"
| "number_to_string num MinusInfinity = ''-Infinity''"

fun to_property_key :: "(real \<Rightarrow> string) \<Rightarrow> json \<Rightarrow> string option" where
  "to_property_key num JNull = Some ''null''"
| "to_property_key num (JBool b) = Some (if b then ''true'' else ''false'')"
| "to_property_key num (JNum n) = Some (number_to_string num n)"
| "to_property_key num (JStr s) = Some s"
| "to_property_key num (JArr xs) =
     map_option join_comma
       (those (map (\<lambda>x. if x = JNull then Some [] else to_property_key num x) xs))"
| "to_property_key num (JObj members) =
     (if ''toString'' \<in> fst ` set members then None else Some ''[object Object]'')"

text \<open>
  \<^verbatim>\<open>VOICE_OPTIONS[voice_type as keyof typeof VOICE_OPTIONS] || VOICE_OPTIONS.primary\<close>:
  \<^verbatim>\<open>undefined\<close> is the only falsy value the read can give. The result is \<open>None\<close> when
  the conversion of \<^verbatim>\<open>voice_type\<close> to a key raises the TypeError.
\<close>

definition select_voice :: "(real \<Rightarrow> string) \<Rightarrow> json \<Rightarrow> js_value option" where
  "select_voice num voice_type =
     map_option
       (\<lambda>key. case voice_options_get key of
                 Undefined \<Rightarrow> VoiceConfig VOICE_OPTIONS_primary
               | v \<Rightarrow> v)
       (to_property_key num voice_type)"

text \<open>
  \<^verbatim>\<open>voiceConfig.voice_id\<close> and \<^verbatim>\<open>voiceConfig.name\<close>; \<open>None\<close> is \<^verbatim>\<open>undefined\<close>.
  A function has a \<^verbatim>\<open>name\<close> (its own) and no \<^verbatim>\<open>voice_id\<close>; \<^verbatim>\<open>Object.prototype\<close> has
  neither.
\<close>

fun config_voice_id :: "js_value \<Rightarrow> string option" where
  "config_voice_id (VoiceConfig c) = Some (voice_id c)"
| "config_voice_id _ = None"

fun config_name :: "js_value \<Rightarrow> string option" where
  "config_name (VoiceConfig c) = Some (voice_name c)"
| "config_name (NativeFunction f) = Some f"
| "config_name _ = None"

text \<open>
  \<^verbatim>\<open>elevenlabs.generate\<close> is the external service: given the text and the voice id it
  either rejects or resolves to the audio bytes.
\<close>

datatype generate_outcome =
    GenerateRejected
  | GenerateAudio "nat list"

datatype tts_failure =
    TtsBodyNotJson
  | TtsDestructureNull
  | TtsPropertyKeyTypeError
  | TtsGenerateFailed

datatype tts_body =
    TtsError string
  | TtsErrorDetails string tts_failure
  | TtsAudio "nat list" "string option" real string

record tts_response =
  tts_status :: nat
  tts_body :: tts_body

text \<open>
  The handler. \<open>api_key\<close> is \<^verbatim>\<open>process.env.ELEVENLABS_API_KEY\<close>; the result is the
  response and the list of (text, voice id) pairs passed to \<^verbatim>\<open>elevenlabs.generate\<close>.
  A missing \<^verbatim>\<open>voice_type\<close> takes the default \<^verbatim>\<open>'primary'\<close> of the destructuring.
\<close>

definition tts_POST ::
  "(real \<Rightarrow> string) \<Rightarrow> string option \<Rightarrow> (json \<Rightarrow> string option \<Rightarrow> generate_outcome) \<Rightarrow>
   json option \<Rightarrow> tts_response \<times> (json \<times> string option) list" where
  "tts_POST num api_key generate parsed =
     (case parsed of
        None \<Rightarrow>
          (\<lparr>tts_status = 500,
            tts_body = TtsErrorDetails ''Failed to generate speech'' TtsBodyNotJson\<rparr>, [])
      | Some req_body \<Rightarrow>
          if req_body = JNull
          then (\<lparr>tts_status = 500,
                 tts_body = TtsErrorDetails ''Failed to generate speech'' TtsDestructureNull\<rparr>, [])
          else
            let text = get_prop req_body ''text'';
                voice_type = (case get_prop req_body ''voice_type'' of
                                None \<Rightarrow> JStr ''primary'' | Some v \<Rightarrow> v)
            in if \<not> truthy text
               then (\<lparr>tts_status = 400, tts_body = TtsError ''Text is required''\<rparr>, [])
               else if api_key = None \<or> api_key = Some []
               then (\<lparr>tts_status = 500,
                      tts_body = TtsError ''ElevenLabs API key not configured''\<rparr>, [])
               else
                 (case select_voice num voice_type of
                    None \<Rightarrow>
                      (\<lparr>tts_status = 500,
                        tts_body =
                          TtsErrorDetails ''Failed to generate speech'' TtsPropertyKeyTypeError\<rparr>,
                       [])
                  | Some voiceConfig \<Rightarrow>
                      let call = (the text, config_voice_id voiceConfig)
                      in (case generate (fst call) (snd call) of
                            GenerateRejected \<Rightarrow>
                              (\<lparr>tts_status = 500,
                                tts_body =
                                  TtsErrorDetails ''Failed to generate speech''
                                    TtsGenerateFailed\<rparr>,
                               [call])
                          | GenerateAudio audioBuffer \<Rightarrow>
                              (\<lparr>tts_status = 200,
                                tts_body =
                                  TtsAudio audioBuffer (config_name voiceConfig)
                                    (real (length audioBuffer) / 16000)
                                    ''eleven_multilingual_v2''\<rparr>,
                               [call]))))"

text \<open>A speech service that accepts every call and returns three bytes of audio.\<close>

definition generate_ok :: "json \<Rightarrow> string option \<Rightarrow> generate_outcome" where
  "generate_ok text vid = GenerateAudio [73, 68, 51]"

section \<open>The message list of the voice assistant: \<^verbatim>\<open>src/components/VoiceAssistant.tsx\<close>\<close>

text \<open>
  A JavaScript string is a sequence of UTF-16 code units; \<^verbatim>\<open>trim\<close> removes code units
  that no 8-bit character can hold, so the strings of the component are lists of code
  units. \<open>js\<close> reads an ASCII literal as such a string.
\<close>

type_synonym jsstring = "nat list"

definition js :: "string \<Rightarrow> jsstring" where
  "js s = map of_char s"

text \<open>
  The code units \<^verbatim>\<open>String.prototype.trim\<close> strips: the WhiteSpace and LineTerminator
  code points of ECMAScript (tab, LF, VT, FF, CR, space, NBSP, U+1680, U+2000 to U+200A,
  U+2028, U+2029, U+202F, U+205F, U+3000 and the byte order mark U+FEFF).
\<close>

definition is_trim_space :: "nat \<Rightarrow> bool" where
  "is_trim_space c =
     (c \<in> {9, 10, 11, 12, 13, 32, 160, 5760, 8232, 8233, 8239, 8287, 12288, 65279}
      \<or> (8192 \<le> c \<and> c \<le> 8202))"

definition trim :: "jsstring \<Rightarrow> jsstring" where
  "trim s = rev (dropWhile is_trim_space (rev (dropWhile is_trim_space s)))"

text \<open>\<^verbatim>\<open>Date.now().toString()\<close>: the decimal digits of the clock reading.\<close>

fun decimal :: "nat \<Rightarrow> jsstring" where
  "decimal n = (if n < 10 then [48 + n] else decimal (n div 10) @ [48 + n mod 10])"

datatype role = User | Assistant

record message =
  msg_id :: jsstring
  content :: jsstring
  msg_role :: role
  timestamp :: nat

definition welcome_text :: jsstring where
  "welcome_text =
     js (''Welcome to Gather Foods AI! I'' @ [CHR 0x27] @ ''m your voice-powered assistant. ''
         @ ''Ask me about our menu, dietary options, or company heritage. ''
         @ ''Click the microphone to start speaking!'')"

text \<open>The literal of \<^verbatim>\<open>useState\<close> and of \<^verbatim>\<open>clearMessages\<close>, created at time \<open>now\<close>.\<close>

definition welcome_message :: "nat \<Rightarrow> message" where
  "welcome_message now =
     \<lparr>msg_id = js ''1'', content = welcome_text, msg_role = Assistant, timestamp = now\<rparr>"

text \<open>
  Two welcome messages differ in their \<^verbatim>\<open>new Date()\<close> only; a message is the welcome
  message when its id, content and role are the literal's.
\<close>

definition is_welcome :: "message \<Rightarrow> bool" where
  "is_welcome m =
     (msg_id m = js ''1'' \<and> content m = welcome_text \<and> msg_role m = Assistant)"

text \<open>
  The state of the component that the message list depends on. \<open>pending\<close> counts the
  calls of \<^verbatim>\<open>handleUserMessage\<close> that are waiting for \<^verbatim>\<open>onMessage\<close> to settle.
\<close>

record assistant_state =
  messages :: "message list"
  isProcessing :: bool
  pending :: nat

definition initial_state :: "nat \<Rightarrow> assistant_state" where
  "initial_state now =
     \<lparr>messages = [welcome_message now], isProcessing = False, pending = 0\<rparr>"

text \<open>
  \<^verbatim>\<open>handleUserMessage\<close> up to its \<^verbatim>\<open>await onMessage(content)\<close>: the early return, the
  user message, \<^verbatim>\<open>setMessages(prev => [...prev, userMessage])\<close>.
\<close>

definition handleUserMessage_send :: "jsstring \<Rightarrow> nat \<Rightarrow> assistant_state \<Rightarrow> assistant_state" where
  "handleUserMessage_send c now s =
     (if trim c = [] then s
      else s\<lparr>messages := messages s @
                [\<lparr>msg_id = decimal now, content = c, msg_role = User, timestamp = now\<rparr>],
              isProcessing := True,
              pending := Suc (pending s)\<rparr>)"

text \<open>How \<^verbatim>\<open>onMessage\<close> settled: with the assistant's response, or with an exception.\<close>

datatype settled = Resolved jsstring | Rejected

text \<open>
  The rest of \<^verbatim>\<open>handleUserMessage\<close>: the \<^verbatim>\<open>try\<close> branch appends the assistant's
  message, the \<^verbatim>\<open>catch\<close> branch the apology, \<^verbatim>\<open>finally\<close> clears the flag.
  (\<^verbatim>\<open>playElevenLabsAudio\<close> catches its own errors and does not touch the list.)
\<close>

definition handleUserMessage_settle :: "settled \<Rightarrow> nat \<Rightarrow> assistant_state \<Rightarrow> assistant_state" where
  "handleUserMessage_settle r now s =
     s\<lparr>messages := messages s @
          [case r of
             Resolved response \<Rightarrow>
               \<lparr>msg_id = decimal (now + 1), content = response, msg_role = Assistant,
                timestamp = now\<rparr>
           | Rejected \<Rightarrow>
               \<lparr>msg_id = decimal (now + 1),
                content = js ''Sorry, I encountered an error. Please try again.'',
                msg_role = Assistant, timestamp = now\<rparr>],
       isProcessing := False,
       pending := pending s - 1\<rparr>"

definition clearMessages :: "nat \<Rightarrow> assistant_state \<Rightarrow> assistant_state" where
  "clearMessages now s = s\<lparr>messages := [welcome_message now]\<rparr>"

text \<open>
  The states the component can be in: it starts in the initial state, and every event
  (a message handed to \<^verbatim>\<open>handleUserMessage\<close>, a pending \<^verbatim>\<open>onMessage\<close> settling, a
  click on Clear) leads from one to the next. A click may come between the two halves
  of \<^verbatim>\<open>handleUserMessage\<close>.
\<close>

inductive reachable :: "assistant_state \<Rightarrow> bool" where
  start: "reachable (initial_state now)"
| send: "reachable s \<Longrightarrow> reachable (handleUserMessage_send c now s)"
| settle: "reachable s \<Longrightarrow> 0 < pending s \<Longrightarrow> reachable (handleUserMessage_settle r now s)"
| clear: "reachable s \<Longrightarrow> reachable (clearMessages now s)"

text \<open>The list starts with the welcome message (and so is not empty).\<close>

definition starts_with_welcome :: "message list \<Rightarrow> bool" where
  "starts_with_welcome ms = (case ms of [] \<Rightarrow> False | m # _ \<Rightarrow> is_welcome m)"

text \<open>
  A run of the component: a question, a click on Clear while the answer is pending, the
  answer, and a message of two spaces.
\<close>

definition example_run :: assistant_state where
  "example_run =
     handleUserMessage_send (js ''  '') 40
       (handleUserMessage_settle (Resolved (js ''Damper'')) 30
          (clearMessages 20
             (handleUserMessage_send (js ''menu?'') 10 (initial_state 0))))"

section \<open>The vector index of the retrieval core\<close>

text \<open>
  The Python retrieval pipeline that the documentation under \<^verbatim>\<open>src/\<close> describes
  (\<^verbatim>\<open>training/index/faiss_store.py\<close> and its neighbours) is not among the sources. The
  definitions of this section are written from the specification, sections 3 and 4.4;
  scores are real numbers, so the rounding of the floating-point arithmetic is not part
  of the model.
\<close>

text \<open>Modelled from the spec: the \<^verbatim>\<open>Chunk\<close> of the data model (the chunker is missing).\<close>

record chunk =
  chunk_id :: string
  document_id :: string
  chunk_text :: string
  start_offset :: int
  end_offset :: int
  heading_path :: "string list"
  sequence_index :: int

text \<open>Modelled from the spec: \<^verbatim>\<open>EmbeddedChunk\<close>, a chunk plus its vector.\<close>

record embedded_chunk =
  ec_chunk :: chunk
  vector :: "real list"

text \<open>Modelled from the spec: the metric that \<^verbatim>\<open>build\<close> is given.\<close>

datatype metric = Cosine | Euclidean

text \<open>
  Modelled from the spec: the structure that \<^verbatim>\<open>build\<close> is given. The exact structure
  searches the vectors as they are. For the approximate structure the spec fixes no
  algorithm; it asks that the approximation be documented, "e.g., a
  clustering/quantization parameter", and that search still return every indexed vector
  when \<open>k\<close> exceeds their number. The model takes the quantiser as the documented
  approximation: the approximate structure scores the quantised vectors, so its top
  \<open>k\<close> may differ from the exact ones, and every slot stays a candidate.
\<close>

datatype search_structure = Exact | Approximate "real list \<Rightarrow> real list"

text \<open>
  Modelled from the spec: \<^verbatim>\<open>VectorIndex\<close>, the slots in slot order, each with its chunk
  metadata and vector, and the dimensionality, metric and structure stored at build time.
\<close>

record vector_index =
  dimension :: nat
  index_metric :: metric
  index_structure :: search_structure
  slots :: "embedded_chunk list"

text \<open>
  Modelled from the spec: the state machine of the index,
  \<^verbatim>\<open>Empty -> Building -> Ready\<close> or \<^verbatim>\<open>Empty -> Loading -> Ready\<close>.
\<close>

datatype index_state = Empty | Building | Loading | Ready vector_index

text \<open>Modelled from the spec: the failures of \<^verbatim>\<open>search\<close> in the error taxonomy.\<close>

datatype index_error = DimensionMismatchError | InvalidArgumentError | NotReadyError

text \<open>
  Modelled from the spec: the inner product of two vectors, for the cosine similarity of
  the glossary.
\<close>

definition dot :: "real list \<Rightarrow> real list \<Rightarrow> real" where
  "dot xs ys = sum_list (map2 (*) xs ys)"

text \<open>Modelled from the spec: the length of a vector.\<close>

definition l2_norm :: "real list \<Rightarrow> real" where
  "l2_norm xs = sqrt (dot xs xs)"

text \<open>
  Modelled from the spec: cosine similarity, "a similarity score based on the angle
  between two vectors, insensitive to their magnitude". A zero vector has no direction;
  the spec does not say what its score is, and the model gives it 0.
\<close>

definition cosine_similarity :: "real list \<Rightarrow> real list \<Rightarrow> real" where
  "cosine_similarity q v =
     (if l2_norm q = 0 \<or> l2_norm v = 0 then 0 else dot q v / (l2_norm q * l2_norm v))"

text \<open>Modelled from the spec: the distance of the euclidean metric.\<close>

definition euclidean_distance :: "real list \<Rightarrow> real list \<Rightarrow> real" where
  "euclidean_distance q v = l2_norm (map2 (-) q v)"

text \<open>Modelled from the spec: the score of a vector for a query under the metric.\<close>

definition score :: "metric \<Rightarrow> real list \<Rightarrow> real list \<Rightarrow> real" where
  "score m q v =
     (case m of Cosine \<Rightarrow> cosine_similarity q v | Euclidean \<Rightarrow> euclidean_distance q v)"

text \<open>
  Modelled from the spec: "best-first". A larger similarity is better, a smaller distance
  is better.
\<close>

definition at_least_as_good :: "metric \<Rightarrow> real \<Rightarrow> real \<Rightarrow> bool" where
  "at_least_as_good m s t = (case m of Cosine \<Rightarrow> t \<le> s | Euclidean \<Rightarrow> s \<le> t)"

text \<open>
  Modelled from the spec: the order of the results, best score first and "ties broken by
  ascending \<^verbatim>\<open>chunk_id\<close>": the slots are sorted by this key.
\<close>

definition rank_key :: "metric \<Rightarrow> real list \<Rightarrow> embedded_chunk \<Rightarrow> real \<times> string" where
  "rank_key m q e =
     (case m of
        Cosine \<Rightarrow> (- cosine_similarity q (vector e), chunk_id (ec_chunk e))
      | Euclidean \<Rightarrow> (euclidean_distance q (vector e), chunk_id (ec_chunk e)))"

text \<open>Modelled from the spec: one result, "(Chunk metadata, score)".\<close>

definition scored :: "metric \<Rightarrow> real list \<Rightarrow> embedded_chunk \<Rightarrow> chunk \<times> real" where
  "scored m q e = (ec_chunk e, score m q (vector e))"

text \<open>
  Modelled from the spec: the slots as the index structure scores them.
\<close>

definition candidates :: "vector_index \<Rightarrow> embedded_chunk list" where
  "candidates idx =
     (case index_structure idx of
        Exact \<Rightarrow> slots idx
      | Approximate quantise \<Rightarrow> map (\<lambda>e. e\<lparr>vector := quantise (vector e)\<rparr>) (slots idx))"

text \<open>
  Modelled from the spec: \<^verbatim>\<open>search(query_vector, k)\<close>. It is valid in \<^verbatim>\<open>Ready\<close>
  only. It fails on a query of the wrong length, then on \<^verbatim>\<open>k <= 0\<close>: section 4.4
  lists the two failures in this order, and section 8 says that a query of the wrong
  length "always fails with \<^verbatim>\<open>DimensionMismatchError\<close>, never returns a result".
  Otherwise it returns the first \<open>k\<close> of the ranked candidates.
\<close>

definition search :: "index_state \<Rightarrow> real list \<Rightarrow> int \<Rightarrow> index_error + (chunk \<times> real) list" where
  "search st q k =
     (case st of
        Ready idx \<Rightarrow>
          if length q \<noteq> dimension idx then Inl DimensionMismatchError
          else if k \<le> 0 then Inl InvalidArgumentError
          else Inr (map (scored (index_metric idx) q)
                      (take (nat k)
                         (sort_key (rank_key (index_metric idx) q) (candidates idx))))
      | _ \<Rightarrow> Inl NotReadyError)"

text \<open>
  Example data: a chunk of the menu, an exact cosine index of three chunks, and an
  approximate one over the same chunks that rounds every coordinate down.
\<close>

definition example_chunk :: "string \<Rightarrow> chunk" where
  "example_chunk name =
     \<lparr>chunk_id = name, document_id = ''menu'', chunk_text = ''Wattleseed Damper'',
      start_offset = 0, end_offset = 17, heading_path = [''Menu''], sequence_index = 0\<rparr>"

definition example_index :: vector_index where
  "example_index =
     \<lparr>dimension = 2, index_metric = Cosine, index_structure = Exact,
      slots = [\<lparr>ec_chunk = example_chunk ''c'', vector = [0, 1]\<rparr>,
               \<lparr>ec_chunk = example_chunk ''b'', vector = [1, 0]\<rparr>,
               \<lparr>ec_chunk = example_chunk ''a'', vector = [1, 0]\<rparr>]\<rparr>"

definition floor_quantiser :: "real list \<Rightarrow> real list" where
  "floor_quantiser v = map (\<lambda>x. of_int \<lfloor>x\<rfloor>) v"

definition approximate_index :: vector_index where
  "approximate_index = example_index\<lparr>index_structure := Approximate floor_quantiser\<rparr>"

section \<open>Properties of the chat route\<close>

text \<open>A request with a message is forwarded, with the default session id.\<close>

lemma chat_forwards_truthy_message:
  "chat_POST (Some (JObj [(''message'', JStr ''Hi'')])) backend_echo =
     (\<lparr>status = 200,
       body = ChatReply [(''response'', JStr ''Hello''), (''session_id'', JStr ''nextjs-session'')]\<rparr>,
      [\<lparr>url = ''http://localhost:8000/api/chat'', http_method = ''POST'',
        fwd_message = JStr ''Hi'', fwd_session_id = JStr ''nextjs-session''\<rparr>])"
  by (simp add: chat_POST_def backend_echo_def response_ok_def reply_members_def
      List.map_filter_def Let_def)

text \<open>A message that parsed to an infinity reaches the backend as \<^verbatim>\<open>null\<close>.\<close>

lemma chat_forwards_infinity_as_null:
  "snd (chat_POST (Some (JObj [(''message'', JNum PlusInfinity)])) backend_echo) =
     [\<lparr>url = ''http://localhost:8000/api/chat'', http_method = ''POST'',
       fwd_message = JNull, fwd_session_id = JStr ''nextjs-session''\<rparr>]"
  by (simp add: chat_POST_def backend_echo_def response_ok_def Let_def)

text \<open>
  Claim C8, as amended. For every POST request to the chat route whose body parses to a
  JSON value with no \<^verbatim>\<open>message\<close> member, or a falsy one: nothing is forwarded to the
  backend, and when the body is not \<^verbatim>\<open>null\<close> the response is status 400 with the
  error \<^verbatim>\<open>Message is required\<close>.
\<close>

theorem chat_missing_message:
  assumes "\<not> truthy (get_prop b ''message'')"
  shows "(b \<noteq> JNull \<longrightarrow>
            chat_POST (Some b) backend =
              (\<lparr>status = 400, body = ErrorBody ''Message is required''\<rparr>, []))
         \<and> snd (chat_POST (Some b) backend) = []"
  using assms by (simp add: chat_POST_def Let_def)

text \<open>The theorem at a body whose message is the empty string.\<close>

theorem chat_missing_message_witness:
  "\<not> truthy (get_prop (JObj [(''session_id'', JStr ''s1''), (''message'', JStr '''')]) ''message'')
   \<and> JObj [(''session_id'', JStr ''s1''), (''message'', JStr '''')] \<noteq> JNull
   \<and> chat_POST (Some (JObj [(''session_id'', JStr ''s1''), (''message'', JStr '''')])) backend_echo =
        (\<lparr>status = 400, body = ErrorBody ''Message is required''\<rparr>, [])"
  using chat_missing_message
    [of "JObj [(''session_id'', JStr ''s1''), (''message'', JStr '''')]" backend_echo]
  by simp

text \<open>
  Claim C8 as first stated fails at the body \<^verbatim>\<open>null\<close>: it is JSON and has no
  \<^verbatim>\<open>message\<close>, the destructuring raises a TypeError, and the \<^verbatim>\<open>catch\<close> block answers
  with status 500 and \<^verbatim>\<open>Internal server error\<close>.
\<close>

theorem chat_null_body_counterexample:
  "\<not> truthy (get_prop JNull ''message'')
   \<and> chat_POST (Some JNull) backend_echo = (internal_server_error DestructureNull, [])
   \<and> status (fst (chat_POST (Some JNull) backend_echo)) = 500"
  by (simp add: chat_POST_def internal_server_error_def)

section \<open>Properties of the text-to-speech route\<close>

text \<open>
  A \<^verbatim>\<open>voice_type\<close> that is one of the seven keys selects its configuration, and a string
  that names no property at all selects the primary voice.
\<close>

lemma select_voice_defined:
  "map_of VOICE_OPTIONS key = Some c \<Longrightarrow> select_voice num (JStr key) = Some (VoiceConfig c)"
  by (simp add: select_voice_def voice_options_get_def)

lemma select_voice_unknown:
  "key \<notin> fst ` set VOICE_OPTIONS \<Longrightarrow> key \<noteq> ''constructor'' \<Longrightarrow> key \<noteq> ''__proto__'' \<Longrightarrow>
   key \<notin> set object_prototype_methods \<Longrightarrow>
   select_voice num (JStr key) = Some (VoiceConfig VOICE_OPTIONS_primary)"
proof -
  assume own: "key \<notin> fst ` set VOICE_OPTIONS" and "key \<noteq> ''constructor''"
    and "key \<noteq> ''__proto__''" and "key \<notin> set object_prototype_methods"
  from own have "map_of VOICE_OPTIONS key = None"
    by (simp add: map_of_eq_None_iff)
  then show ?thesis
    using \<open>key \<noteq> ''constructor''\<close> \<open>key \<noteq> ''__proto__''\<close>
      \<open>key \<notin> set object_prototype_methods\<close>
    by (simp add: select_voice_def voice_options_get_def object_prototype_get_def)
qed

lemma primary_is_first: "map_of VOICE_OPTIONS ''primary'' = Some VOICE_OPTIONS_primary"
  by (simp add: VOICE_OPTIONS_def VOICE_OPTIONS_primary_def)


text \<open>
  A \<^verbatim>\<open>voice_type\<close> object with a member \<^verbatim>\<open>toString\<close> makes the property read throw:
  the handler answers 500 and the speech service is not called.
\<close>

lemma tts_voice_type_not_convertible:
  "tts_POST num (Some ''key'') generate_ok
     (Some (JObj [(''text'', JStr ''Hello''),
                  (''voice_type'', JObj [(''toString'', JNull)])])) =
   (\<lparr>tts_status = 500,
     tts_body = TtsErrorDetails ''Failed to generate speech'' TtsPropertyKeyTypeError\<rparr>, [])"
  by (simp add: tts_POST_def select_voice_def Let_def)

text \<open>
  Claim C9 says that every \<^verbatim>\<open>voice_type\<close> other than the seven keys selects
  \<^verbatim>\<open>VOICE_OPTIONS.primary\<close>, so that the \<^verbatim>\<open>voice\<close> of the response is always a
  configured name. The handler at \<^verbatim>\<open>{"text": "Hello", "voice_type": "constructor"}\<close>:
  the property read finds the inherited \<^verbatim>\<open>Object.prototype.constructor\<close>, which is
  truthy, so the fallback is not taken; the voice id handed to the speech service is
  \<^verbatim>\<open>undefined\<close>, and when the service answers, the response names the voice
  \<^verbatim>\<open>Object\<close>.
\<close>

theorem tts_inherited_key:
  "select_voice num (JStr ''constructor'') = Some (NativeFunction ''Object'')
   \<and> select_voice num (JStr ''constructor'') \<noteq> Some (VoiceConfig VOICE_OPTIONS_primary)
   \<and> tts_POST num (Some ''key'') generate_ok
        (Some (JObj [(''text'', JStr ''Hello''), (''voice_type'', JStr ''constructor'')])) =
      (\<lparr>tts_status = 200,
        tts_body = TtsAudio [73, 68, 51] (Some ''Object'') (3 / 16000) ''eleven_multilingual_v2''\<rparr>,
       [(JStr ''Hello'', None)])
   \<and> ''Object'' \<notin> set defined_voice_names"
  by (simp add: select_voice_def voice_options_get_def VOICE_OPTIONS_def
      object_prototype_get_def tts_POST_def generate_ok_def defined_voice_names_def Let_def)

section \<open>Properties of the message list\<close>

lemma welcome_is_welcome: "is_welcome (welcome_message now)"
  by (simp add: is_welcome_def welcome_message_def)

lemma send_appends:
  "\<exists>new. messages (handleUserMessage_send text now s) = messages s @ new"
  by (simp add: handleUserMessage_send_def)

lemma settle_appends:
  "\<exists>m. messages (handleUserMessage_settle r now s) = messages s @ [m]"
  by (simp add: handleUserMessage_settle_def)

lemma starts_with_welcome_append:
  "starts_with_welcome ms \<Longrightarrow> starts_with_welcome (ms @ new)"
  by (cases ms) (simp_all add: starts_with_welcome_def)

lemma reachable_starts_with_welcome:
  "reachable s \<Longrightarrow> starts_with_welcome (messages s)"
proof (induction rule: reachable.induct)
  case (start now)
  show ?case
    by (simp add: initial_state_def starts_with_welcome_def welcome_is_welcome)
next
  case (send s c now)
  obtain new where "messages (handleUserMessage_send c now s) = messages s @ new"
    using send_appends by blast
  with send.IH show ?case
    by (simp add: starts_with_welcome_append)
next
  case (settle s r now)
  obtain m where "messages (handleUserMessage_settle r now s) = messages s @ [m]"
    using settle_appends by blast
  with settle.IH show ?case
    by (simp add: starts_with_welcome_append)
next
  case (clear s now)
  show ?case
    by (simp add: clearMessages_def starts_with_welcome_def welcome_is_welcome)
qed

text \<open>
  Claim C10. In every state the component can reach, the message list is not empty and
  its first element is the assistant's welcome message. The initial list is exactly the
  welcome message; both halves of \<^verbatim>\<open>handleUserMessage\<close> only append to the list, and
  the first appends nothing (it changes nothing at all) when the content trims to the
  empty string; \<^verbatim>\<open>clearMessages\<close> sets the list to exactly the welcome message.
\<close>

theorem messages_never_lose_welcome:
  assumes "reachable s"
  shows "messages s \<noteq> [] \<and> is_welcome (hd (messages s))
    \<and> messages (initial_state t) = [welcome_message t]
    \<and> (\<exists>new. messages (handleUserMessage_send text t s) = messages s @ new)
    \<and> (trim text = [] \<longrightarrow> handleUserMessage_send text t s = s)
    \<and> (\<exists>m. messages (handleUserMessage_settle r t s) = messages s @ [m])
    \<and> messages (clearMessages t s) = [welcome_message t]"
proof -
  from assms have "starts_with_welcome (messages s)"
    by (rule reachable_starts_with_welcome)
  then have "messages s \<noteq> [] \<and> is_welcome (hd (messages s))"
    by (cases "messages s") (simp_all add: starts_with_welcome_def)
  moreover have "messages (initial_state t) = [welcome_message t]"
    by (simp add: initial_state_def)
  moreover have "trim text = [] \<longrightarrow> handleUserMessage_send text t s = s"
    by (simp add: handleUserMessage_send_def)
  moreover have "messages (clearMessages t s) = [welcome_message t]"
    by (simp add: clearMessages_def)
  ultimately show ?thesis
    using send_appends settle_appends by blast
qed

lemma example_run_reachable: "reachable example_run"
  unfolding example_run_def
  by (intro reachable.intros) (simp add: clearMessages_def handleUserMessage_send_def trim_def js_def is_trim_space_def)

text \<open>The theorem at the example run, whose last message is two spaces.\<close>

theorem messages_never_lose_welcome_witness:
  "reachable example_run
   \<and> messages example_run \<noteq> [] \<and> is_welcome (hd (messages example_run))
   \<and> trim (js ''  '') = []
   \<and> length (messages example_run) = 2"
  using messages_never_lose_welcome [OF example_run_reachable, of 0 "js ''  ''" Rejected]
    example_run_reachable
  by (simp add: example_run_def clearMessages_def handleUserMessage_send_def
      handleUserMessage_settle_def trim_def js_def is_trim_space_def)


section \<open>Properties of the vector index\<close>

subsection \<open>The cosine score: the Cauchy-Schwarz inequality for lists\<close>

lemma dot_self_nonneg: "0 \<le> dot xs xs"
  unfolding dot_def by (induction xs) simp_all

lemma dot_Cons: "dot (x # xs) (y # ys) = x * y + dot xs ys"
  by (simp add: dot_def)

lemma dot_Nil: "dot [] ys = 0" "dot xs [] = 0"
  by (simp_all add: dot_def)

lemma two_term_bound:
  fixes a b d A B :: real
  assumes "0 \<le> A" "0 \<le> B" "d\<^sup>2 \<le> A * B"
  shows "(a * b + d)\<^sup>2 \<le> (a\<^sup>2 + A) * (b\<^sup>2 + B)"
proof -
  let ?u = "a\<^sup>2 * B" and ?v = "b\<^sup>2 * A"
  have u: "0 \<le> ?u" and v: "0 \<le> ?v"
    using assms by simp_all
  have "(a * b * d)\<^sup>2 = (a\<^sup>2 * b\<^sup>2) * d\<^sup>2"
    by (simp add: power_mult_distrib)
  also have "\<dots> \<le> (a\<^sup>2 * b\<^sup>2) * (A * B)"
    by (rule mult_left_mono) (simp_all add: assms)
  also have "\<dots> = ?u * ?v"
    by (simp add: algebra_simps)
  finally have "sqrt ((a * b * d)\<^sup>2) \<le> sqrt (?u * ?v)"
    by (rule real_sqrt_le_mono)
  also have "\<dots> \<le> (?u + ?v) / 2"
    using u v by (rule arith_geo_mean_sqrt)
  finally have "\<bar>a * b * d\<bar> \<le> (?u + ?v) / 2"
    by simp
  then have "a * b * d \<le> (?u + ?v) / 2"
    by (rule order_trans [OF abs_ge_self])
  then have "2 * (a * b * d) \<le> ?u + ?v"
    by simp
  moreover have "(a * b + d)\<^sup>2 = a\<^sup>2 * b\<^sup>2 + 2 * (a * b * d) + d\<^sup>2"
    by (simp add: power2_eq_square algebra_simps)
  moreover have "(a\<^sup>2 + A) * (b\<^sup>2 + B) = a\<^sup>2 * b\<^sup>2 + ?u + ?v + A * B"
    by (simp add: algebra_simps)
  ultimately show ?thesis
    using assms(3) by linarith
qed

lemma dot_squared_le: "(dot xs ys)\<^sup>2 \<le> dot xs xs * dot ys ys"
proof (induction xs arbitrary: ys)
  case Nil
  show ?case by (simp add: dot_Nil)
next
  case (Cons x xs)
  show ?case
  proof (cases ys)
    case Nil
    then show ?thesis by (simp add: dot_Nil)
  next
    case (Cons y ys')
    have "(x * y + dot xs ys')\<^sup>2 \<le> (x\<^sup>2 + dot xs xs) * (y\<^sup>2 + dot ys' ys')"
      by (rule two_term_bound) (simp_all add: dot_self_nonneg Cons.IH)
    then show ?thesis
      by (simp add: Cons dot_Cons power2_eq_square)
  qed
qed


lemma abs_dot_le: "\<bar>dot xs ys\<bar> \<le> l2_norm xs * l2_norm ys"
proof -
  have "sqrt ((dot xs ys)\<^sup>2) \<le> sqrt (dot xs xs * dot ys ys)"
    by (rule real_sqrt_le_mono) (rule dot_squared_le)
  then show ?thesis
    by (simp add: l2_norm_def real_sqrt_mult)
qed

lemma l2_norm_nonneg: "0 \<le> l2_norm xs"
  by (simp add: l2_norm_def dot_self_nonneg)

lemma cosine_similarity_bounds:
  "- 1 \<le> cosine_similarity q v \<and> cosine_similarity q v \<le> 1"
proof (cases "l2_norm q = 0 \<or> l2_norm v = 0")
  case True
  then show ?thesis by (auto simp add: cosine_similarity_def)
next
  case False
  then have pos: "0 < l2_norm q * l2_norm v"
    using l2_norm_nonneg [of q] l2_norm_nonneg [of v] by (simp add: less_le)
  have "\<bar>dot q v\<bar> \<le> l2_norm q * l2_norm v"
    by (rule abs_dot_le)
  then have "\<bar>dot q v\<bar> / (l2_norm q * l2_norm v) \<le> 1"
    using pos by (simp add: divide_le_eq)
  then have "\<bar>dot q v / (l2_norm q * l2_norm v)\<bar> \<le> 1"
    using pos by (simp only: abs_div_pos)
  moreover define c where "c = dot q v / (l2_norm q * l2_norm v)"
  ultimately have "\<bar>c\<bar> \<le> 1"
    by simp
  then have "- 1 \<le> c \<and> c \<le> 1"
    by linarith
  then show ?thesis
    using False by (simp add: cosine_similarity_def c_def)
qed

subsection \<open>The order of the results\<close>

text \<open>
  The results are in the order of the rank key: best score first, equal scores by
  ascending \<^verbatim>\<open>chunk_id\<close>; cosine scores lie between -1 and 1.
\<close>

lemma rank_key_le:
  assumes "rank_key m q a \<le> rank_key m q b"
  shows "at_least_as_good m (score m q (vector a)) (score m q (vector b))"
    and "score m q (vector a) = score m q (vector b) \<Longrightarrow>
         chunk_id (ec_chunk a) \<le> chunk_id (ec_chunk b)"
  using assms by (cases m; auto simp add: rank_key_def at_least_as_good_def score_def)+

lemma ranked_sorted_wrt:
  "sorted_wrt (\<lambda>a b. rank_key m q a \<le> rank_key m q b)
     (take n (sort_key (rank_key m q) xs))"
proof -
  have "sorted (map (rank_key m q) (sort_key (rank_key m q) xs))"
    by (rule sorted_sort_key)
  then have "sorted_wrt (\<lambda>a b. rank_key m q a \<le> rank_key m q b) (sort_key (rank_key m q) xs)"
    by (simp add: sorted_map)
  then show ?thesis
    by (rule sorted_wrt_take)
qed

lemma results_best_first:
  "sorted_wrt (\<lambda>a b. at_least_as_good m (snd a) (snd b))
     (map (scored m q) (take n (sort_key (rank_key m q) xs)))"
  unfolding sorted_wrt_map
  by (rule sorted_wrt_mono_rel [OF _ ranked_sorted_wrt]) (simp add: scored_def rank_key_le(1))

lemma results_ties_by_chunk_id:
  "sorted_wrt (\<lambda>a b. snd a = snd b \<longrightarrow> chunk_id (fst a) \<le> chunk_id (fst b))
     (map (scored m q) (take n (sort_key (rank_key m q) xs)))"
  unfolding sorted_wrt_map
  by (rule sorted_wrt_mono_rel [OF _ ranked_sorted_wrt]) (simp add: scored_def rank_key_le(2))

lemma results_cosine_bounds:
  "\<forall>r\<in>set (map (scored Cosine q) ys). - 1 \<le> snd r \<and> snd r \<le> 1"
  by (simp add: scored_def score_def cosine_similarity_bounds)

subsection \<open>Examples\<close>

lemma candidates_chunks: "map ec_chunk (candidates idx) = map ec_chunk (slots idx)"
  by (simp add: candidates_def split: search_structure.splits)

lemma candidates_length: "length (candidates idx) = length (slots idx)"
  by (simp add: candidates_def split: search_structure.splits)

lemma example_search_2:
  "search (Ready example_index) [1, 0] 2 =
     Inr [(example_chunk ''a'', 1), (example_chunk ''b'', 1)]"
  by (simp add: search_def candidates_def example_index_def rank_key_def scored_def score_def
      cosine_similarity_def l2_norm_def dot_def example_chunk_def)

lemma example_search_100:
  "search (Ready example_index) [1, 0] 100 =
     Inr [(example_chunk ''a'', 1), (example_chunk ''b'', 1), (example_chunk ''c'', 0)]"
  by (simp add: search_def candidates_def example_index_def rank_key_def scored_def score_def
      cosine_similarity_def l2_norm_def dot_def example_chunk_def)

lemma approximate_search_100:
  "search (Ready approximate_index) [1, 0] 100 =
     Inr [(example_chunk ''a'', 1), (example_chunk ''b'', 1), (example_chunk ''c'', 0)]"
  by (simp add: search_def candidates_def approximate_index_def example_index_def
      floor_quantiser_def rank_key_def scored_def score_def cosine_similarity_def l2_norm_def
      dot_def example_chunk_def)

subsection \<open>The bounds of \<open>k\<close>\<close>

text \<open>
  Claim C5, as amended. For every Ready index, of either structure, and every query
  vector whose length is the index's vector length, search with \<open>k\<close> at most 0 fails
  with \<^verbatim>\<open>InvalidArgumentError\<close>, and search with \<open>k\<close> greater than the number of
  indexed vectors does not fail: it returns as many results as there are slots, and
  their chunks are exactly the indexed chunks.
\<close>

theorem search_k_limits:
  assumes "length q = dimension idx"
  shows "(k \<le> 0 \<longrightarrow> search (Ready idx) q k = Inl InvalidArgumentError)
     \<and> (int (length (slots idx)) < k \<longrightarrow>
          (\<exists>rs. search (Ready idx) q k = Inr rs
             \<and> length rs = length (slots idx)
             \<and> mset (map fst rs) = mset (map ec_chunk (slots idx))))"
proof (intro conjI impI)
  assume "k \<le> 0"
  with assms show "search (Ready idx) q k = Inl InvalidArgumentError"
    by (simp add: search_def)
next
  let ?m = "index_metric idx"
  let ?ys = "sort_key (rank_key ?m q) (candidates idx)"
  assume big: "int (length (slots idx)) < k"
  then have pos: "0 < k" by linarith
  from big have all: "take (nat k) ?ys = ?ys"
    by (simp add: candidates_length)
  have fst_scored: "map fst (map (scored ?m q) ?ys) = map ec_chunk ?ys"
    by (simp add: scored_def comp_def)
  have "mset (map ec_chunk ?ys) = mset (map ec_chunk (candidates idx))"
    by simp
  then have ms: "mset (map fst (map (scored ?m q) ?ys)) = mset (map ec_chunk (slots idx))"
    by (simp only: fst_scored candidates_chunks)
  have len: "length (map (scored ?m q) ?ys) = length (slots idx)"
    by (simp add: candidates_length)
  from assms pos all have "search (Ready idx) q k = Inr (map (scored ?m q) ?ys)"
    by (simp add: search_def)
  with len ms
  show "\<exists>rs. search (Ready idx) q k = Inr rs
             \<and> length rs = length (slots idx)
             \<and> mset (map fst rs) = mset (map ec_chunk (slots idx))"
    by blast
qed

text \<open>
  The theorem at the two example indexes of three chunks: \<open>k = 100\<close> gives exactly
  three results, exact or approximate, and \<open>k = 0\<close> fails.
\<close>

theorem search_k_limits_witness:
  "length [1, 0 :: real] = dimension example_index
   \<and> length [1, 0 :: real] = dimension approximate_index
   \<and> int (length (slots example_index)) < 100
   \<and> int (length (slots approximate_index)) < 100
   \<and> (\<exists>rs. search (Ready example_index) [1, 0] 100 = Inr rs \<and> length rs = 3)
   \<and> (\<exists>rs. search (Ready approximate_index) [1, 0] 100 = Inr rs \<and> length rs = 3)
   \<and> search (Ready example_index) [1, 0] 0 = Inl InvalidArgumentError"
proof -
  have dim: "length [1, 0 :: real] = dimension example_index"
    and dim': "length [1, 0 :: real] = dimension approximate_index"
    by (simp_all add: approximate_index_def example_index_def)
  have n: "length (slots example_index) = 3"
    and n': "length (slots approximate_index) = 3"
    by (simp_all add: approximate_index_def example_index_def)
  from search_k_limits [OF dim, of 100] n
  have "\<exists>rs. search (Ready example_index) [1, 0] 100 = Inr rs \<and> length rs = 3"
    by auto
  moreover from search_k_limits [OF dim', of 100] n'
  have "\<exists>rs. search (Ready approximate_index) [1, 0] 100 = Inr rs \<and> length rs = 3"
    by auto
  moreover from search_k_limits [OF dim, of 0]
  have "search (Ready example_index) [1, 0] 0 = Inl InvalidArgumentError"
    by simp
  ultimately show ?thesis
    using dim dim' n n' by simp
qed

text \<open>
  Claim C5 as first stated, for every query vector, fails at a query of the wrong
  length: against the example index of three chunks and vector length 2, the query
  \<open>[1]\<close> fails with \<^verbatim>\<open>DimensionMismatchError\<close> for \<open>k = 0\<close>, where the claim says
  \<^verbatim>\<open>InvalidArgumentError\<close>, and for \<open>k = 100\<close>, where the claim says that the three
  indexed vectors are returned.
\<close>

theorem search_wrong_length_counterexample:
  "length [1 :: real] \<noteq> dimension example_index
   \<and> length (slots example_index) = 3
   \<and> search (Ready example_index) [1] 0 = Inl DimensionMismatchError
   \<and> search (Ready example_index) [1] 0 \<noteq> Inl InvalidArgumentError
   \<and> search (Ready example_index) [1] 100 = Inl DimensionMismatchError"
  by (simp add: search_def example_index_def)

end
